theory Spec2Isabelle
  imports Complex_Main "HOL-Library.Word"
begin

section \<open>Outcomes of a call\<close>

text \<open>
  The C++ sources report failures by throwing (\<^verbatim>\<open>std::invalid_argument\<close>,
  \<^verbatim>\<open>std::out_of_range\<close> from \<^verbatim>\<open>unordered_map::at\<close>, and \<^verbatim>\<open>std::length_error\<close> or
  \<^verbatim>\<open>std::bad_alloc\<close> from the construction of a \<^verbatim>\<open>std::vector\<close>). Only the kind of the
  exception is modelled, not its message text.
\<close>

datatype exn = InvalidArgument | OutOfRange | LengthError | BadAlloc

text \<open>
  A member function that mutates state \<open>'s\<close> (an amplitude buffer, an output vector)
  either returns with the new state, throws with the state as it was when the
  exception left the function, aborts the process (a failed \<^verbatim>\<open>assert\<close>), or has
  undefined behaviour (an unchecked \<^verbatim>\<open>operator[]\<close> outside the container, a
  dereferenced end iterator).
\<close>

datatype 's outcome = Returns 's | Throws exn 's | Aborts | Undefined

text \<open>An error is reported to the caller exactly when an exception is thrown.\<close>

fun reports :: "'s outcome \<Rightarrow> bool" where
  "reports (Throws e s) = True"
| "reports (Returns s) = False"
| "reports Aborts = False"
| "reports Undefined = False"

text \<open>
  Modelled from the spec: \<^verbatim>\<open>Util::exp2\<close> (Util.hpp is not among the sources). The spec
  gives the buffer \<open>2^numQubits\<close> amplitudes and a \<open>k\<close>-wire matrix \<open>4^k\<close> entries; sizes
  are unbounded naturals here.
\<close>

definition exp2 :: "nat \<Rightarrow> nat" where
  "exp2 n = 2 ^ n"

section \<open>StateVectorLQubitManaged\<close>

text \<open>
  The class owns \<^verbatim>\<open>data_\<close>; \<^verbatim>\<open>num_qubits_\<close> comes from the base class. The threading
  and memory-model options of the base class do not influence any amplitude.
\<close>

record StateVector =
  num_qubits :: nat
  data :: "complex list"

text \<open>
  \<^verbatim>\<open>setBasisState\<close>: \<^verbatim>\<open>std::fill\<close> with zero, then \<^verbatim>\<open>data_[index] = {1, 0}\<close>. The
  subscript is the unchecked \<^verbatim>\<open>std::vector::operator[]\<close>: there is no test of
  \<open>index\<close> against the length.
\<close>

definition setBasisState :: "nat \<Rightarrow> StateVector \<Rightarrow> StateVector outcome" where
  "setBasisState index sv =
     (let filled = replicate (length (data sv)) (Complex 0 0)
      in if index < length filled
         then Returns (sv\<lparr>data := filled[index := Complex 1 0]\<rparr>)
         else Undefined)"



definition getLength :: "StateVector \<Rightarrow> nat" where
  "getLength sv = length (data sv)"

definition resetStateVector :: "StateVector \<Rightarrow> StateVector outcome" where
  "resetStateVector sv = (if getLength sv > 0 then setBasisState 0 sv else Returns sv)"

section \<open>JacobianProd: the vector-Jacobian product\<close>

text \<open>\<^verbatim>\<open>std::vector::resize(n)\<close>: the first \<open>n\<close> elements stay, new ones are zero.\<close>

definition resize :: "nat \<Rightarrow> 'a::zero list \<Rightarrow> 'a list" where
  "resize n v = take n v @ replicate (n - length v) 0"

text \<open>
  The two loops of \<^verbatim>\<open>getRowMajor\<close>, \<^verbatim>\<open>res[k] = jac[i][j]; k++\<close>. Both subscripts are
  unchecked; a subscript outside its vector is undefined behaviour.
\<close>

function getRowMajor_cols ::
  "nat \<Rightarrow> 'a list \<Rightarrow> nat \<Rightarrow> nat \<Rightarrow> 'a list \<Rightarrow> ('a list \<times> nat) outcome" where
  "getRowMajor_cols c_len row j k res =
     (if j < c_len
      then (if j < length row \<and> k < length res
            then getRowMajor_cols c_len row (Suc j) (Suc k) (res[k := row ! j])
            else Undefined)
      else Returns (res, k))"
  by pat_completeness auto
termination
  by (relation "measure (\<lambda>(c_len, row, j, k, res). c_len - j)") auto

declare getRowMajor_cols.simps [simp del]

function getRowMajor_rows ::
  "nat \<Rightarrow> 'a list list \<Rightarrow> nat \<Rightarrow> nat \<Rightarrow> 'a list \<Rightarrow> ('a list \<times> nat) outcome" where
  "getRowMajor_rows c_len jac i k res =
     (if i < length jac
      then (case getRowMajor_cols c_len (jac ! i) 0 k res of
              Returns (res', k') \<Rightarrow> getRowMajor_rows c_len jac (Suc i) k' res'
            | Throws e s \<Rightarrow> Throws e s
            | Aborts \<Rightarrow> Aborts
            | Undefined \<Rightarrow> Undefined)
      else Returns (res, k))"
  by pat_completeness auto
termination
  by (relation "measure (\<lambda>(c_len, jac, i, k, res). length jac - i)") auto

declare getRowMajor_rows.simps [simp del]

definition getRowMajor :: "'a::zero list \<Rightarrow> 'a list list \<Rightarrow> nat \<Rightarrow> 'a list outcome" where
  "getRowMajor res jac len =
     (if jac = [] then Returns res
      else let r_len = length jac;
               c_len = length (hd jac);
               t_len = (if len \<noteq> 0 then len else r_len * c_len);
               res1 = (if length res \<noteq> t_len then resize t_len res else res)
           in case getRowMajor_rows c_len jac 0 0 res1 of
                Returns (res', k) \<Rightarrow> Returns res'
              | Throws e s \<Rightarrow> Throws e res1
              | Aborts \<Rightarrow> Aborts
              | Undefined \<Rightarrow> Undefined)"

text \<open>
  Modelled from the spec: \<^verbatim>\<open>Util::vecMatrixProd(vjp, dy_row, jac_row, r_len, c_len)\<close>
  (Util.hpp is not among the sources). The spec's words: "VJP = \<open>dy^T \<cdot> J\<close>, i.e., for
  each parameter column, sum over observables of \<open>dy[i] * J[i][j]\<close>", the result having
  one entry per parameter. Here \<open>mat\<close> is the row-major Jacobian of \<open>m\<close> rows and \<open>n\<close>
  columns, so \<open>J[i][j]\<close> is \<open>mat[i * n + j]\<close>; the sum runs over \<open>i = 0, ..., m - 1\<close> in
  this order. Rounding of the floating-point type is not modelled: \<open>'a\<close> is any
  semiring.
\<close>

definition vecMatrixProd ::
  "'a list \<Rightarrow> 'a list \<Rightarrow> 'a list \<Rightarrow> nat \<Rightarrow> nat \<Rightarrow> 'a::semiring_0 list" where
  "vecMatrixProd v_out v_in mat m n =
     map (\<lambda>j. sum_list (map (\<lambda>i. v_in ! i * mat ! (i * n + j)) [0..<m])) [0..<n]"

text \<open>\<^verbatim>\<open>computeVJP(vjp, jac, dy_row)\<close>; the state is the output vector \<open>vjp\<close>.\<close>

definition computeVJP ::
  "'a::semiring_0 list \<Rightarrow> 'a list list \<Rightarrow> 'a list \<Rightarrow> 'a list outcome" where
  "computeVJP vjp jac dy_row =
     (if jac = [] \<or> dy_row = [] then Returns []
      else let r_len = length jac;
               c_len = length (hd jac)
           in if length dy_row \<noteq> r_len then Throws InvalidArgument vjp
              else let t_len = r_len * c_len
                   in case getRowMajor (replicate t_len 0) jac t_len of
                        Returns jac_row \<Rightarrow> Returns (vecMatrixProd vjp dy_row jac_row r_len c_len)
                      | Throws e s \<Rightarrow> Throws e vjp
                      | Aborts \<Rightarrow> Aborts
                      | Undefined \<Rightarrow> Undefined)"

text \<open>\<^verbatim>\<open>_computeVJP(vjp, jac, dy_row, m, n)\<close>: the same on a Jacobian already flattened.\<close>

definition computeVJP_flat ::
  "'a::semiring_0 list \<Rightarrow> 'a list \<Rightarrow> 'a list \<Rightarrow> nat \<Rightarrow> nat \<Rightarrow> 'a list outcome" where
  "computeVJP_flat vjp jac dy_row m n =
     (if jac = [] \<or> dy_row = [] then Returns []
      else if length dy_row \<noteq> m then Throws InvalidArgument vjp
      else Returns (vecMatrixProd vjp dy_row jac m n))"

text \<open>
  The tape (\<^verbatim>\<open>GradTapeT\<close>, declared in Tape.hpp, which is not among the sources): the
  two members the class reads.
\<close>

record 'o GradTapeT =
  trainableParams :: "nat list"
  observables :: "'o list"

text \<open>
  \<^verbatim>\<open>vectorJacobianProduct(vjp, jac, dy, tape, apply_operations)\<close>. The state is the pair
  of the two vectors passed by reference. \<^verbatim>\<open>adjointJacobianTape\<close> belongs to the base
  class \<^verbatim>\<open>AdjointJacobian\<close> (AdjointDiff.hpp, not among the sources) and is a parameter:
  it receives the Jacobian buffer and gives its outcome.
\<close>

definition vectorJacobianProduct ::
  "('a list list \<Rightarrow> 'o GradTapeT \<Rightarrow> bool \<Rightarrow> 'a list list outcome) \<Rightarrow>
   'a::semiring_0 list \<Rightarrow> 'a list list \<Rightarrow> 'a list \<Rightarrow> 'o GradTapeT \<Rightarrow> bool \<Rightarrow>
   ('a list \<times> 'a list list) outcome" where
  "vectorJacobianProduct adjointJacobianTape vjp jac dy tape apply_operations =
     (let num_params = length (trainableParams tape)
      in if num_params = 0 \<or> dy = [] then Returns ([], jac)
         else let allzero = list_all (\<lambda>e. e = 0) dy
              in if allzero then Returns (resize num_params vjp, jac)
                 else case adjointJacobianTape jac tape apply_operations of
                        Returns jac' \<Rightarrow>
                          (case computeVJP vjp jac' dy of
                             Returns vjp' \<Rightarrow> Returns (vjp', jac')
                           | Throws e vjp' \<Rightarrow> Throws e (vjp', jac')
                           | Aborts \<Rightarrow> Aborts
                           | Undefined \<Rightarrow> Undefined)
                      | Throws e jac' \<Rightarrow> Throws e (vjp, jac')
                      | Aborts \<Rightarrow> Aborts
                      | Undefined \<Rightarrow> Undefined)"

section \<open>DynamicDispatcher: the kernel registry and gate dispatch\<close>

text \<open>
  \<^verbatim>\<open>enum class KernelType { PI, LM, None }\<close>; the enumerator \<^verbatim>\<open>None\<close> is written
  \<open>NoneKernel\<close> here. \<^verbatim>\<open>MatrixOperation\<close> is declared outside the sources; the class
  names its three enumerators.
\<close>

datatype KernelType = PI | LM | NoneKernel

datatype MatrixOperation = SingleQubitOp | TwoQubitOp | MultiQubitOp

text \<open>
  A kernel receives the amplitude buffer behind the pointer \<^verbatim>\<open>data\<close> and gives its
  outcome on that buffer. The enumerations \<^verbatim>\<open>GateOperation\<close> and
  \<^verbatim>\<open>GeneratorOperation\<close> are declared outside the sources; they are the type
  parameters \<open>'g\<close> and \<open>'n\<close>. \<open>'c\<close> is the amplitude type, \<open>'p\<close> the parameter type.
\<close>

type_synonym ('c, 'p) GateFunc =
  "'c list \<Rightarrow> nat \<Rightarrow> nat list \<Rightarrow> bool \<Rightarrow> 'p list \<Rightarrow> 'c list outcome"

type_synonym ('c, 'p) GeneratorFunc =
  "'c list \<Rightarrow> nat \<Rightarrow> nat list \<Rightarrow> bool \<Rightarrow> ('p \<times> 'c list) outcome"

type_synonym 'c MatrixFunc =
  "'c list \<Rightarrow> nat \<Rightarrow> 'c list \<Rightarrow> nat list \<Rightarrow> bool \<Rightarrow> 'c list outcome"

record ('g, 'n, 'c, 'p) DynamicDispatcher =
  str_to_gates :: "string \<rightharpoonup> 'g"
  str_to_gntrs :: "string \<rightharpoonup> 'n"
  gates :: "'g \<times> KernelType \<rightharpoonup> ('c, 'p) GateFunc"
  generators :: "'n \<times> KernelType \<rightharpoonup> ('c, 'p) GeneratorFunc"
  matrices :: "MatrixOperation \<times> KernelType \<rightharpoonup> 'c MatrixFunc"

text \<open>\<^verbatim>\<open>unordered_map::emplace\<close>: inserts only when the key is not yet present.\<close>

definition emplace :: "('k \<rightharpoonup> 'v) \<Rightarrow> 'k \<Rightarrow> 'v \<Rightarrow> ('k \<rightharpoonup> 'v)" where
  "emplace m k v = (case m k of None \<Rightarrow> m(k \<mapsto> v) | Some old \<Rightarrow> m)"

text \<open>\<^verbatim>\<open>string_view::rfind\<close>: the last position at which \<open>v\<close> occurs in \<open>s\<close>.\<close>

definition rfind :: "string \<Rightarrow> string \<Rightarrow> nat option" where
  "rfind s v = List.find (\<lambda>pos. take (length v) (drop pos s) = v) (rev [0..<Suc (length s)])"

definition removeGeneratorPrefix :: "string \<Rightarrow> string" where
  "removeGeneratorPrefix op_name =
     (let pre = ''Generator''
      in if rfind op_name pre \<noteq> Some 0 then op_name else drop (length pre) op_name)"

text \<open>
  The private constructor, run once by \<^verbatim>\<open>getInstance\<close>. The tables
  \<^verbatim>\<open>Gates::Constant::gate_names\<close> and \<^verbatim>\<open>generator_names\<close> (Constant.hpp, not among the
  sources) are parameters: lists of pairs of an operation and its name.
\<close>

definition getInstance ::
  "('g \<times> string) list \<Rightarrow> ('n \<times> string) list \<Rightarrow> ('g, 'n, 'c, 'p) DynamicDispatcher" where
  "getInstance gate_names generator_names =
     \<lparr>str_to_gates = fold (\<lambda>(gate_op, gate_name) m. emplace m gate_name gate_op) gate_names Map.empty,
      str_to_gntrs = fold (\<lambda>(gntr_op, gntr_name) m. emplace m (removeGeneratorPrefix gntr_name) gntr_op)
                       generator_names Map.empty,
      gates = Map.empty,
      generators = Map.empty,
      matrices = Map.empty\<rparr>"

text \<open>\<^verbatim>\<open>strToGateOp\<close> is \<^verbatim>\<open>str_to_gates_.at(gate_name)\<close>, which throws on a missing key.\<close>

definition strToGateOp :: "('g, 'n, 'c, 'p) DynamicDispatcher \<Rightarrow> string \<Rightarrow> exn + 'g" where
  "strToGateOp d gate_name =
     (case str_to_gates d gate_name of None \<Rightarrow> Inl OutOfRange | Some gate_op \<Rightarrow> Inr gate_op)"

definition strToGeneratorOp :: "('g, 'n, 'c, 'p) DynamicDispatcher \<Rightarrow> string \<Rightarrow> exn + 'n" where
  "strToGeneratorOp d gntr_name =
     (case str_to_gntrs d gntr_name of None \<Rightarrow> Inl OutOfRange | Some gntr_op \<Rightarrow> Inr gntr_op)"

definition registerGateOperation ::
  "'g \<Rightarrow> KernelType \<Rightarrow> ('c, 'p) GateFunc \<Rightarrow> ('g, 'n, 'c, 'p) DynamicDispatcher \<Rightarrow>
   ('g, 'n, 'c, 'p) DynamicDispatcher" where
  "registerGateOperation gate_op kern func d =
     d\<lparr>gates := emplace (gates d) (gate_op, kern) func\<rparr>"

definition registerGeneratorOperation ::
  "'n \<Rightarrow> KernelType \<Rightarrow> ('c, 'p) GeneratorFunc \<Rightarrow> ('g, 'n, 'c, 'p) DynamicDispatcher \<Rightarrow>
   ('g, 'n, 'c, 'p) DynamicDispatcher" where
  "registerGeneratorOperation gntr_op kern func d =
     d\<lparr>generators := emplace (generators d) (gntr_op, kern) func\<rparr>"

definition registerMatrixOperation ::
  "MatrixOperation \<Rightarrow> KernelType \<Rightarrow> 'c MatrixFunc \<Rightarrow> ('g, 'n, 'c, 'p) DynamicDispatcher \<Rightarrow>
   ('g, 'n, 'c, 'p) DynamicDispatcher" where
  "registerMatrixOperation mat_op kern func d =
     d\<lparr>matrices := emplace (matrices d) (mat_op, kern) func\<rparr>"

definition isRegistered :: "('g, 'n, 'c, 'p) DynamicDispatcher \<Rightarrow> 'g \<Rightarrow> KernelType \<Rightarrow> bool" where
  "isRegistered d gate_op kern = (gates d (gate_op, kern) \<noteq> None)"

definition isRegistered_generator ::
  "('g, 'n, 'c, 'p) DynamicDispatcher \<Rightarrow> 'n \<Rightarrow> KernelType \<Rightarrow> bool" where
  "isRegistered_generator d gntr_op kern = (generators d (gntr_op, kern) \<noteq> None)"

definition isRegistered_matrix ::
  "('g, 'n, 'c, 'p) DynamicDispatcher \<Rightarrow> MatrixOperation \<Rightarrow> KernelType \<Rightarrow> bool" where
  "isRegistered_matrix d mat_op kern = (matrices d (mat_op, kern) \<noteq> None)"

text \<open>
  \<^verbatim>\<open>applyOperation\<close> with the gate given by name. The argument \<^verbatim>\<open>strToGateOp(op_name)\<close>
  is evaluated first, so its exception leaves before the registry is searched.
\<close>

definition applyOperation_name ::
  "('g, 'n, 'c, 'p) DynamicDispatcher \<Rightarrow> KernelType \<Rightarrow> 'c list \<Rightarrow> nat \<Rightarrow> string \<Rightarrow>
   nat list \<Rightarrow> bool \<Rightarrow> 'p list \<Rightarrow> 'c list outcome" where
  "applyOperation_name d kern dat nq op_name wires inv_flag params =
     (case strToGateOp d op_name of
        Inl e \<Rightarrow> Throws e dat
      | Inr gate_op \<Rightarrow>
          (case gates d (gate_op, kern) of
             None \<Rightarrow> Throws InvalidArgument dat
           | Some func \<Rightarrow> func dat nq wires inv_flag params))"

text \<open>
  \<^verbatim>\<open>applyOperation\<close> with the gate given by its \<^verbatim>\<open>GateOperation\<close>. The message of
  the exception names the gate through \<^verbatim>\<open>Util::lookup\<close> on the table \<^verbatim>\<open>gate_names\<close>
  (neither is among the sources); the table is taken to name every gate, so that the
  exception thrown is the \<^verbatim>\<open>std::invalid_argument\<close>.
\<close>

definition applyOperation ::
  "('g, 'n, 'c, 'p) DynamicDispatcher \<Rightarrow> KernelType \<Rightarrow> 'c list \<Rightarrow> nat \<Rightarrow> 'g \<Rightarrow>
   nat list \<Rightarrow> bool \<Rightarrow> 'p list \<Rightarrow> 'c list outcome" where
  "applyOperation d kern dat nq gate_op wires inv_flag params =
     (case gates d (gate_op, kern) of
        None \<Rightarrow> Throws InvalidArgument dat
      | Some func \<Rightarrow> func dat nq wires inv_flag params)"

text \<open>
  The loop of \<^verbatim>\<open>applyOperations\<close>. The call in its body,
  \<^verbatim>\<open>applyOperation(data, num_qubits, ops[i], wires[i], inverse[i], params[i])\<close>, names an
  overload without a kernel argument that the class as listed does not define; it is the
  parameter \<open>apply1\<close>. The four subscripts are unchecked. An exception of a gate leaves
  the loop with the buffer as the earlier gates left it.
\<close>

function applyOperations_loop ::
  "('c list \<Rightarrow> nat \<Rightarrow> string \<Rightarrow> nat list \<Rightarrow> bool \<Rightarrow> 'p list \<Rightarrow> 'c list outcome) \<Rightarrow>
   nat \<Rightarrow> string list \<Rightarrow> nat list list \<Rightarrow> bool list \<Rightarrow> 'p list list \<Rightarrow>
   nat \<Rightarrow> nat \<Rightarrow> 'c list \<Rightarrow> 'c list outcome" where
  "applyOperations_loop apply1 nq ops wires inv_flag params numOperations i dat =
     (if i < numOperations
      then (if i < length ops \<and> i < length wires \<and> i < length inv_flag \<and> i < length params
            then (case apply1 dat nq (ops ! i) (wires ! i) (inv_flag ! i) (params ! i) of
                    Returns dat' \<Rightarrow>
                      applyOperations_loop apply1 nq ops wires inv_flag params numOperations (Suc i) dat'
                  | Throws e dat' \<Rightarrow> Throws e dat'
                  | Aborts \<Rightarrow> Aborts
                  | Undefined \<Rightarrow> Undefined)
            else Undefined)
      else Returns dat)"
  by pat_completeness auto
termination
  by (relation "measure (\<lambda>(apply1, nq, ops, wires, inv_flag, params, numOperations, i, dat).
        numOperations - i)") auto

declare applyOperations_loop.simps [simp del]

text \<open>\<^verbatim>\<open>applyOperations\<close> with parameter lists.\<close>

fun applyOperations ::
  "('c list \<Rightarrow> nat \<Rightarrow> string \<Rightarrow> nat list \<Rightarrow> bool \<Rightarrow> 'p list \<Rightarrow> 'c list outcome) \<Rightarrow>
   'c list \<Rightarrow> nat \<Rightarrow> string list \<Rightarrow> nat list list \<Rightarrow> bool list \<Rightarrow> 'p list list \<Rightarrow>
   'c list outcome" where
  "applyOperations apply1 dat nq ops wires inv_flag params =
     (let numOperations = length ops
      in if numOperations \<noteq> length wires \<or> numOperations \<noteq> length params
         then Throws InvalidArgument dat
         else applyOperations_loop apply1 nq ops wires inv_flag params numOperations 0 dat)"

text \<open>
  \<^verbatim>\<open>applyOperations\<close> without parameter lists: each gate receives the empty parameter
  list \<^verbatim>\<open>{}\<close>.
\<close>

fun applyOperations_nonparam ::
  "('c list \<Rightarrow> nat \<Rightarrow> string \<Rightarrow> nat list \<Rightarrow> bool \<Rightarrow> 'p list \<Rightarrow> 'c list outcome) \<Rightarrow>
   'c list \<Rightarrow> nat \<Rightarrow> string list \<Rightarrow> nat list list \<Rightarrow> bool list \<Rightarrow> 'c list outcome" where
  "applyOperations_nonparam apply1 dat nq ops wires inv_flag =
     (let numOperations = length ops
      in if numOperations \<noteq> length wires
         then Throws InvalidArgument dat
         else applyOperations_loop apply1 nq ops wires inv_flag
                (replicate numOperations []) numOperations 0 dat)"

text \<open>
  \<^verbatim>\<open>applyMatrix\<close> with the matrix behind a raw pointer: \<open>matrix\<close> is the array the
  pointer refers to, whose length the function has no way to read. The \<^verbatim>\<open>assert\<close> is
  modelled as compiled in. When no kernel is found, the message is built from
  \<^verbatim>\<open>iter->first\<close> with \<open>iter\<close> the end iterator, which is undefined behaviour.
\<close>

definition applyMatrix_ptr ::
  "('g, 'n, 'c, 'p) DynamicDispatcher \<Rightarrow> KernelType \<Rightarrow> 'c list \<Rightarrow> nat \<Rightarrow> 'c list \<Rightarrow>
   nat list \<Rightarrow> bool \<Rightarrow> 'c list outcome" where
  "applyMatrix_ptr d kern dat nq matrix wires inv_flag =
     (if \<not> (nq \<ge> length wires) then Aborts
      else let n_wires = length wires;
               iter = (if n_wires = 1 then matrices d (SingleQubitOp, kern)
                       else if n_wires = 2 then matrices d (TwoQubitOp, kern)
                       else matrices d (MultiQubitOp, kern))
           in case iter of
                None \<Rightarrow> Undefined
              | Some func \<Rightarrow> func dat nq matrix wires inv_flag)"

text \<open>\<^verbatim>\<open>applyMatrix\<close> with the matrix in a \<^verbatim>\<open>std::vector\<close>, whose size is checked.\<close>

definition applyMatrix ::
  "('g, 'n, 'c, 'p) DynamicDispatcher \<Rightarrow> KernelType \<Rightarrow> 'c list \<Rightarrow> nat \<Rightarrow> 'c list \<Rightarrow>
   nat list \<Rightarrow> bool \<Rightarrow> 'c list outcome" where
  "applyMatrix d kern dat nq matrix wires inv_flag =
     (if length matrix \<noteq> exp2 (2 * length wires) then Throws InvalidArgument dat
      else applyMatrix_ptr d kern dat nq matrix wires inv_flag)"

section \<open>Example inputs\<close>

text \<open>
  Concrete kernels and a concrete registry, used where a property is evaluated at an
  input. On a one-qubit buffer the PauliX gate exchanges the two amplitudes.
\<close>

definition pauliX_1q :: "(complex, real) GateFunc" where
  "pauliX_1q dat nq wires inv_flag params = Returns (rev dat)"

definition identity_1q :: "(complex, real) GateFunc" where
  "identity_1q dat nq wires inv_flag params = Returns dat"

definition generator_1q :: "(complex, real) GeneratorFunc" where
  "generator_1q dat nq wires adj = Returns (- 1 / 2, rev dat)"

text \<open>A one-wire matrix kernel on a one-qubit buffer: it reads four matrix entries.\<close>

definition matrix_1q :: "complex MatrixFunc" where
  "matrix_1q dat nq matrix wires inv_flag =
     Returns [matrix ! 0 * dat ! 0 + matrix ! 1 * dat ! 1,
              matrix ! 2 * dat ! 0 + matrix ! 3 * dat ! 1]"


definition example_names :: "(nat \<times> string) list" where
  "example_names = [(0, ''PauliX''), (1, ''Hadamard'')]"

definition example_dispatcher :: "(nat, nat, complex, real) DynamicDispatcher" where
  "example_dispatcher =
     registerMatrixOperation SingleQubitOp PI matrix_1q
       (registerGeneratorOperation 0 PI generator_1q
          (registerGateOperation 0 PI pauliX_1q (getInstance example_names [])))"

section \<open>Properties of the state vector\<close>

lemma setBasisState_in_range:
  "index < length (data sv) \<Longrightarrow>
   setBasisState index sv =
     Returns (sv\<lparr>data := (replicate (length (data sv)) (Complex 0 0))[index := Complex 1 0]\<rparr>)"
  by (simp add: setBasisState_def)

lemma setBasisState_out_of_range:
  "length (data sv) \<le> index \<Longrightarrow> setBasisState index sv = Undefined"
  by (simp add: setBasisState_def)




text \<open>
  Claim C7, as stated, fails: with a buffer of length \<open>2 = 2^1\<close> and index \<open>2\<close> nothing is
  reported to the caller; the write falls outside the buffer.
\<close>

theorem setBasisState_reports_counterexample:
  "\<not> reports (setBasisState 2 \<lparr>num_qubits = 1, data = [Complex 1 0, Complex 0 0]\<rparr>)"
  by (simp add: setBasisState_def)

text \<open>
  Claim C7, amended. For every state vector of buffer length \<open>2^n\<close>, \<open>setBasisState\<close> makes
  no range check and never reports an error: for every index \<open>< 2^n\<close> it returns with the
  buffer zeroed and the amplitude at the index set to \<open>(1,0)\<close>; for every index \<open>\<ge> 2^n\<close>
  the unchecked write is outside the buffer (undefined behaviour), with no report to the
  caller.
\<close>

theorem setBasisState_unchecked:
  "length (data sv) = 2 ^ n \<Longrightarrow>
     \<not> reports (setBasisState index sv) \<and>
     (index < 2 ^ n \<longrightarrow>
        setBasisState index sv =
          Returns (sv\<lparr>data := (replicate (2 ^ n) (Complex 0 0))[index := Complex 1 0]\<rparr>)) \<and>
     (2 ^ n \<le> index \<longrightarrow> setBasisState index sv = Undefined)"
  by (simp add: setBasisState_def)

theorem setBasisState_unchecked_witness:
  "length (data \<lparr>num_qubits = 1, data = [Complex 0 0, Complex 1 0]\<rparr>) = 2 ^ 1 \<and>
   setBasisState 0 \<lparr>num_qubits = 1, data = [Complex 0 0, Complex 1 0]\<rparr> =
     Returns \<lparr>num_qubits = 1, data = [Complex 1 0, Complex 0 0]\<rparr> \<and>
   setBasisState 5 \<lparr>num_qubits = 1, data = [Complex 0 0, Complex 1 0]\<rparr> = Undefined"
  using setBasisState_unchecked [of "\<lparr>num_qubits = 1, data = [Complex 0 0, Complex 1 0]\<rparr>" 1 0]
        setBasisState_unchecked [of "\<lparr>num_qubits = 1, data = [Complex 0 0, Complex 1 0]\<rparr>" 1 5]
  by (simp add: eval_nat_numeral)

section \<open>Properties of the registry and the dispatch\<close>

lemma emplace_present: "m k = Some v \<Longrightarrow> emplace m k v' = m"
  by (simp add: emplace_def)

lemma emplace_apply:
  "emplace m k v k' = (case m k of None \<Rightarrow> (if k' = k then Some v else m k') | Some old \<Rightarrow> m k')"
  by (simp add: emplace_def split: option.split)

lemma fold_emplace_lookup:
  "fold (\<lambda>(g, nm) m. emplace m nm g) xs m0 name =
     (case m0 name of Some g \<Rightarrow> Some g | None \<Rightarrow> map_of (map (\<lambda>(g, nm). (nm, g)) xs) name)"
proof (induction xs arbitrary: m0)
  case Nil
  then show ?case by (simp split: option.split)
next
  case (Cons x xs)
  obtain g nm where x: "x = (g, nm)" by (cases x)
  have "fold (\<lambda>(g, nm) m. emplace m nm g) (x # xs) m0 name =
        fold (\<lambda>(g, nm) m. emplace m nm g) xs (emplace m0 nm g) name"
    by (simp add: x)
  also have "\<dots> = (case emplace m0 nm g name of Some g' \<Rightarrow> Some g'
                    | None \<Rightarrow> map_of (map (\<lambda>(g, nm). (nm, g)) xs) name)"
    by (rule Cons.IH)
  also have "\<dots> = (case m0 name of Some g' \<Rightarrow> Some g'
                    | None \<Rightarrow> map_of (map (\<lambda>(g, nm). (nm, g)) (x # xs)) name)"
    by (auto simp: x emplace_apply split: option.split)
  finally show ?case .
qed

lemma str_to_gates_getInstance:
  assumes "distinct (map snd gate_names)" and "(gate_op, op_name) \<in> set gate_names"
  shows "str_to_gates (getInstance gate_names generator_names) op_name = Some gate_op"
proof -
  let ?sw = "map (\<lambda>(g, nm). (nm, g)) gate_names"
  have e: "map fst ?sw = map snd gate_names" by (induction gate_names) auto
  have d: "distinct (map fst ?sw)" by (subst e) (rule assms(1))
  have m: "(op_name, gate_op) \<in> set ?sw" using assms(2) by force
  have "map_of ?sw op_name = Some gate_op" using d m by (rule map_of_is_SomeI)
  then show ?thesis by (simp add: getInstance_def fold_emplace_lookup)
qed

text \<open>
  Claim C2. When no kernel is registered for the requested pair of operation and kernel
  variant, \<open>applyOperation\<close> throws and the buffer is as it was, whatever else the
  registry holds (for other variants in particular): by gate identifier it throws
  \<open>std::invalid_argument\<close>; by name it throws \<open>std::invalid_argument\<close> when the name
  resolves to such an operation, and the exception of \<open>strToGateOp\<close> when the name is
  unknown.
\<close>

theorem applyOperation_lookup_failure:
  "(\<not> isRegistered d gate_op kern \<longrightarrow>
      applyOperation d kern dat nq gate_op wires inv_flag params = Throws InvalidArgument dat) \<and>
   (strToGateOp d op_name = Inr gate_op \<and> \<not> isRegistered d gate_op kern \<longrightarrow>
      applyOperation_name d kern dat nq op_name wires inv_flag params = Throws InvalidArgument dat) \<and>
   (strToGateOp d op_name = Inl e \<longrightarrow>
      applyOperation_name d kern dat nq op_name wires inv_flag params = Throws e dat)"
  by (simp add: isRegistered_def applyOperation_def applyOperation_name_def)

theorem applyOperation_lookup_failure_witness:
  "isRegistered example_dispatcher 0 PI \<and> \<not> isRegistered example_dispatcher 0 LM \<and>
   strToGateOp example_dispatcher ''PauliX'' = Inr 0 \<and>
   applyOperation example_dispatcher LM [1, 0] 1 0 [0] False [] = Throws InvalidArgument [1, 0] \<and>
   applyOperation_name example_dispatcher LM [1, 0] 1 ''PauliX'' [0] False [] =
     Throws InvalidArgument [1, 0] \<and>
   strToGateOp example_dispatcher ''RX'' = Inl OutOfRange \<and>
   applyOperation_name example_dispatcher LM [1, 0] 1 ''RX'' [0] False [] = Throws OutOfRange [1, 0]"
proof -
  have r: "isRegistered example_dispatcher 0 PI" and n: "\<not> isRegistered example_dispatcher 0 LM"
    by (simp_all add: example_dispatcher_def registerGateOperation_def getInstance_def
        registerGeneratorOperation_def registerMatrixOperation_def isRegistered_def emplace_def)
  have s: "strToGateOp example_dispatcher ''PauliX'' = Inr 0"
    and u: "strToGateOp example_dispatcher ''RX'' = Inl OutOfRange"
    by (simp_all add: example_dispatcher_def registerGateOperation_def getInstance_def
        registerGeneratorOperation_def registerMatrixOperation_def
        strToGateOp_def example_names_def emplace_def)
  show ?thesis
    using r n s u
      applyOperation_lookup_failure
        [of example_dispatcher 0 LM "[1, 0]" 1 "[0]" False "[]" "''PauliX''" OutOfRange]
      applyOperation_lookup_failure
        [of example_dispatcher 0 LM "[1, 0]" 1 "[0]" False "[]" "''RX''" OutOfRange]
    by simp
qed

text \<open>
  Claim C8. Let the name table have pairwise different names and let it give the gate
  \<open>gate_op\<close> the name \<open>op_name\<close>; let the dispatcher hold the name map its constructor
  built from that table, and let a kernel be registered for the gate and the kernel
  variant. Then dispatch by name and dispatch by gate identifier both are the call of
  that one registered kernel on the same arguments, so their outcomes are equal.
\<close>

theorem applyOperation_name_same_kernel:
  assumes "distinct (map snd gate_names)"
    and "(gate_op, op_name) \<in> set gate_names"
    and "str_to_gates d =
           str_to_gates (getInstance gate_names generator_names :: ('g, 'n, 'c, 'p) DynamicDispatcher)"
    and "gates d (gate_op, kern) = Some func"
  shows "applyOperation_name d kern dat nq op_name wires inv_flag params =
           func dat nq wires inv_flag params \<and>
         applyOperation (d :: ('g, 'n, 'c, 'p) DynamicDispatcher) kern dat nq gate_op wires inv_flag params =
           func dat nq wires inv_flag params \<and>
         applyOperation_name d kern dat nq op_name wires inv_flag params =
           applyOperation d kern dat nq gate_op wires inv_flag params"
proof -
  have "str_to_gates (getInstance gate_names generator_names :: ('g, 'n, 'c, 'p) DynamicDispatcher) op_name
          = Some gate_op"
    by (rule str_to_gates_getInstance [OF assms(1) assms(2)])
  with assms(3) have "str_to_gates d op_name = Some gate_op" by simp
  with assms(4) show ?thesis
    by (simp add: applyOperation_def applyOperation_name_def strToGateOp_def)
qed

theorem applyOperation_name_same_kernel_witness:
  "applyOperation_name example_dispatcher PI [1, 0] 1 ''PauliX'' [0] False [] = Returns [0, 1] \<and>
   applyOperation example_dispatcher PI [1, 0] 1 0 [0] False [] = Returns [0, 1]"
proof -
  have h1: "distinct (map snd example_names)" by (simp add: example_names_def)
  have h2: "(0, ''PauliX'') \<in> set example_names" by (simp add: example_names_def)
  have h3: "str_to_gates example_dispatcher =
            str_to_gates (getInstance example_names [] :: (nat, nat, complex, real) DynamicDispatcher)"
    by (simp add: example_dispatcher_def registerGateOperation_def
        registerGeneratorOperation_def registerMatrixOperation_def)
  have h4: "gates example_dispatcher (0, PI) = Some pauliX_1q"
    by (simp add: example_dispatcher_def registerGateOperation_def getInstance_def
        registerGeneratorOperation_def registerMatrixOperation_def emplace_def)
  show ?thesis
    using applyOperation_name_same_kernel [OF h1 h2 h3 h4, of "[1, 0]" 1 "[0]" False "[]"]
    by (simp add: pauliX_1q_def)
qed

text \<open>
  Claim C10. For each of \<open>registerGateOperation\<close>, \<open>registerGeneratorOperation\<close> and
  \<open>registerMatrixOperation\<close>: when a callable is already registered under the key, a
  later registration under that key returns the dispatcher unchanged; the lookup still
  gives the first callable and dispatch calls it. The registration functions have no
  failing path.
\<close>

theorem register_twice_keeps_first:
  "(gates d (gate_op, kern) = Some f \<longrightarrow>
      registerGateOperation gate_op kern f' d = d \<and>
      gates (registerGateOperation gate_op kern f' d) (gate_op, kern) = Some f \<and>
      applyOperation (registerGateOperation gate_op kern f' d) kern dat nq gate_op wires inv_flag params =
        f dat nq wires inv_flag params) \<and>
   (generators d (gntr_op, kern) = Some g \<longrightarrow>
      registerGeneratorOperation gntr_op kern g' d = d \<and>
      generators (registerGeneratorOperation gntr_op kern g' d) (gntr_op, kern) = Some g) \<and>
   (matrices d (mat_op, kern) = Some h \<longrightarrow>
      registerMatrixOperation mat_op kern h' d = d \<and>
      matrices (registerMatrixOperation mat_op kern h' d) (mat_op, kern) = Some h)"
  by (simp add: registerGateOperation_def registerGeneratorOperation_def
      registerMatrixOperation_def emplace_def applyOperation_def)

theorem register_twice_keeps_first_witness:
  "registerGateOperation 0 PI identity_1q example_dispatcher = example_dispatcher \<and>
   applyOperation (registerGateOperation 0 PI identity_1q example_dispatcher) PI [1, 0] 1 0 [0] False [] =
     Returns [0, 1] \<and>
   registerGeneratorOperation 0 PI (\<lambda>dat nq wires adj. Undefined) example_dispatcher =
     example_dispatcher \<and>
   registerMatrixOperation SingleQubitOp PI (\<lambda>dat nq matrix wires inv_flag. Undefined)
     example_dispatcher = example_dispatcher"
proof -
  have h1: "gates example_dispatcher (0, PI) = Some pauliX_1q"
    and h2: "generators example_dispatcher (0, PI) = Some generator_1q"
    and h3: "matrices example_dispatcher (SingleQubitOp, PI) = Some matrix_1q"
    by (simp_all add: example_dispatcher_def registerGateOperation_def getInstance_def
        registerGeneratorOperation_def registerMatrixOperation_def emplace_def)
  note t = register_twice_keeps_first
        [of example_dispatcher 0 PI pauliX_1q identity_1q "[1, 0]" 1 "[0]" False "[]"
            0 generator_1q "\<lambda>dat nq wires adj. Undefined"
            SingleQubitOp matrix_1q "\<lambda>dat nq matrix wires inv_flag. Undefined"]
  from t h1 have a: "registerGateOperation 0 PI identity_1q example_dispatcher = example_dispatcher"
    by blast
  from t h1 have b: "applyOperation (registerGateOperation 0 PI identity_1q example_dispatcher)
                       PI [1, 0] 1 0 [0] False [] = pauliX_1q [1, 0] 1 [0] False []"
    by blast
  from t h2 have c: "registerGeneratorOperation 0 PI (\<lambda>dat nq wires adj. Undefined) example_dispatcher =
                       example_dispatcher"
    by blast
  from t h3 have d: "registerMatrixOperation SingleQubitOp PI (\<lambda>dat nq matrix wires inv_flag. Undefined)
                       example_dispatcher = example_dispatcher"
    by blast
  have e: "pauliX_1q [1, 0] 1 [0] False [] = Returns [0, 1]"
    by (simp add: pauliX_1q_def)
  from a b [unfolded e] c d show ?thesis by (intro conjI)
qed

section \<open>Properties of the vector-Jacobian product\<close>

lemma getRowMajor_cols_not_reports: "\<not> reports (getRowMajor_cols c_len row j k res)"
proof (induction c_len row j k res rule: getRowMajor_cols.induct)
  case (1 c_len row j k res)
  show ?case
    using "1.IH" by (subst getRowMajor_cols.simps) simp
qed

lemma getRowMajor_rows_not_reports: "\<not> reports (getRowMajor_rows c_len jac i k res)"
proof (induction c_len jac i k res rule: getRowMajor_rows.induct)
  case (1 c_len jac i k res)
  show ?case
  proof (cases "i < length jac")
    case False
    then show ?thesis by (subst getRowMajor_rows.simps) simp
  next
    case True
    show ?thesis
    proof (cases "getRowMajor_cols c_len (jac ! i) 0 k res")
      case (Returns p)
      obtain res' k' where p: "p = (res', k')" by (cases p)
      show ?thesis
        using True Returns p "1.IH" [OF True Returns [unfolded p] refl]
        by (subst getRowMajor_rows.simps) simp
    next
      case (Throws e s)
      with getRowMajor_cols_not_reports [of c_len "jac ! i" 0 k res] show ?thesis by simp
    next
      case Aborts
      with True show ?thesis by (subst getRowMajor_rows.simps) simp
    next
      case Undefined
      with True show ?thesis by (subst getRowMajor_rows.simps) simp
    qed
  qed
qed

lemma getRowMajor_not_reports: "\<not> reports (getRowMajor res jac len)"
proof (cases "jac = []")
  case True
  then show ?thesis by (simp add: getRowMajor_def)
next
  case False
  define res1 where "res1 = (if length res \<noteq> (if len \<noteq> 0 then len else length jac * length (hd jac))
       then resize (if len \<noteq> 0 then len else length jac * length (hd jac)) res else res)"
  show ?thesis
    using False getRowMajor_rows_not_reports [of "length (hd jac)" jac 0 0 res1]
    by (cases "getRowMajor_rows (length (hd jac)) jac 0 0 res1")
       (auto simp: getRowMajor_def Let_def res1_def)
qed

lemma getRowMajor_cols_copies:
  "length row = c_len \<Longrightarrow> j \<le> c_len \<Longrightarrow> k + (c_len - j) \<le> length res \<Longrightarrow>
   getRowMajor_cols c_len row j k res =
     Returns (take k res @ drop j row @ drop (k + (c_len - j)) res, k + (c_len - j))"
proof (induction c_len row j k res rule: getRowMajor_cols.induct)
  case (1 c_len row j k res)
  show ?case
  proof (cases "j < c_len")
    case False
    with "1.prems" show ?thesis
      by (subst getRowMajor_cols.simps) simp
  next
    case True
    with "1.prems" have jr: "j < length row" and kr: "k < length res" by simp_all
    let ?res = "res[k := row ! j]"
    have step: "getRowMajor_cols c_len row j k res = getRowMajor_cols c_len row (Suc j) (Suc k) ?res"
      using True jr kr by (subst getRowMajor_cols.simps) simp
    have ih: "getRowMajor_cols c_len row (Suc j) (Suc k) ?res =
        Returns (take (Suc k) ?res @ drop (Suc j) row @ drop (Suc k + (c_len - Suc j)) ?res,
                 Suc k + (c_len - Suc j))"
      using "1.IH" [OF True] True jr kr "1.prems" by simp
    have a: "take (Suc k) ?res = take k res @ [row ! j]"
      using kr by (simp add: take_Suc_conv_app_nth)
    have b: "drop (Suc k + (c_len - Suc j)) ?res = drop (k + (c_len - j)) res"
      using True by (simp add: Suc_diff_Suc [symmetric] del: Suc_diff_Suc)
    have c: "[row ! j] @ drop (Suc j) row = drop j row"
      using jr by (simp add: Cons_nth_drop_Suc)
    have d: "Suc k + (c_len - Suc j) = k + (c_len - j)" using True by simp
    have "take (Suc k) ?res @ drop (Suc j) row @ drop (Suc k + (c_len - Suc j)) ?res =
          (take k res @ [row ! j]) @ drop (Suc j) row @ drop (k + (c_len - j)) res"
      by (simp only: a b)
    also have "\<dots> = take k res @ ([row ! j] @ drop (Suc j) row) @ drop (k + (c_len - j)) res"
      by simp
    also have "\<dots> = take k res @ drop j row @ drop (k + (c_len - j)) res"
      by (simp only: c)
    finally show ?thesis
      by (simp only: step ih d)
  qed
qed

lemma getRowMajor_rows_copies:
  "\<forall>row \<in> set jac. length row = c_len \<Longrightarrow> i \<le> length jac \<Longrightarrow>
   k + (length jac - i) * c_len \<le> length res \<Longrightarrow>
   getRowMajor_rows c_len jac i k res =
     Returns (take k res @ concat (drop i jac) @ drop (k + (length jac - i) * c_len) res,
              k + (length jac - i) * c_len)"
proof (induction c_len jac i k res rule: getRowMajor_rows.induct)
  case (1 c_len jac i k res)
  show ?case
  proof (cases "i < length jac")
    case False
    with "1.prems" show ?thesis
      by (subst getRowMajor_rows.simps) simp
  next
    case True
    let ?row = "jac ! i"
    let ?m = "(length jac - Suc i) * c_len"
    have len: "length ?row = c_len" using True "1.prems"(1) by simp
    have split: "(length jac - i) * c_len = c_len + ?m"
      using True by (simp add: Suc_diff_Suc [symmetric] del: Suc_diff_Suc)
    have room: "k + c_len \<le> length res" using "1.prems"(3) split by simp
    let ?res = "take k res @ ?row @ drop (k + c_len) res"
    have inner: "getRowMajor_cols c_len ?row 0 k res = Returns (?res, k + c_len)"
      using getRowMajor_cols_copies [of ?row c_len 0 k res] len room by simp
    have step: "getRowMajor_rows c_len jac i k res = getRowMajor_rows c_len jac (Suc i) (k + c_len) ?res"
      using True inner by (subst getRowMajor_rows.simps) simp
    have lres: "length ?res = length res" using room len by simp
    have ih: "getRowMajor_rows c_len jac (Suc i) (k + c_len) ?res =
        Returns (take (k + c_len) ?res @ concat (drop (Suc i) jac) @ drop (k + c_len + ?m) ?res,
                 k + c_len + ?m)"
      using "1.IH" [OF True inner refl] "1.prems" True split lres by simp
    have a: "take (k + c_len) ?res = take k res @ ?row"
      using room len by simp
    have b: "drop (k + c_len + ?m) ?res = drop (k + c_len + ?m) res"
      using room len by (simp add: ac_simps)
    have c: "?row @ concat (drop (Suc i) jac) = concat (drop i jac)"
      using True by (simp add: Cons_nth_drop_Suc [symmetric])
    show ?thesis
      unfolding step ih a b split using c by (simp add: add.assoc)
  qed
qed

lemma getRowMajor_concat:
  assumes "jac \<noteq> []" and "\<forall>row \<in> set jac. length row = c_len"
  shows "getRowMajor (replicate (length jac * c_len) 0) jac (length jac * c_len) = Returns (concat jac)"
proof -
  have hd: "length (hd jac) = c_len" using assms by (cases jac) simp_all
  have "getRowMajor_rows c_len jac 0 0 (replicate (length jac * c_len) 0) =
        Returns (concat jac, length jac * c_len)"
    using getRowMajor_rows_copies [of jac c_len 0 0 "replicate (length jac * c_len) 0"] assms(2)
    by simp
  then show ?thesis
    using assms(1) hd by (simp add: getRowMajor_def Let_def)
qed

lemma concat_nth_rect:
  "\<forall>row \<in> set jac. length row = c_len \<Longrightarrow> i < length jac \<Longrightarrow> j < c_len \<Longrightarrow>
   concat jac ! (i * c_len + j) = jac ! i ! j"
proof (induction jac arbitrary: i)
  case Nil
  then show ?case by simp
next
  case (Cons row rest)
  show ?case
  proof (cases i)
    case 0
    with Cons.prems show ?thesis by (simp add: nth_append)
  next
    case (Suc i')
    have "concat (row # rest) ! (Suc i' * c_len + j) = (row @ concat rest) ! (length row + (i' * c_len + j))"
      using Cons.prems(1) by (simp add: add.assoc)
    also have "\<dots> = concat rest ! (i' * c_len + j)"
      by (rule nth_append_length_plus)
    also have "\<dots> = rest ! i' ! j"
      using Cons.IH [of i'] Cons.prems Suc by simp
    finally show ?thesis using Suc by simp
  qed
qed

text \<open>
  Claim C3 (with \<open>vecMatrixProd\<close> as the spec describes it). For every Jacobian of
  \<open>r \<ge> 1\<close> rows that all have \<open>c\<close> entries and every non-empty \<open>dy\<close> of length \<open>r\<close>,
  \<open>computeVJP\<close> returns a vector of length \<open>c\<close> whose \<open>j\<close>-th entry is the sum over \<open>i\<close>
  of \<open>dy[i] * J[i][j]\<close>: the flattening done by \<open>getRowMajor\<close> puts \<open>J[i][j]\<close> at
  position \<open>i * c + j\<close>, where the product reads it.
\<close>

theorem computeVJP_contraction:
  assumes "jac \<noteq> []" and "dy \<noteq> []" and "length dy = length jac"
    and "\<forall>row \<in> set jac. length row = c"
  shows "\<exists>v. computeVJP vjp jac dy = Returns v \<and> length v = c \<and>
             (\<forall>j<c. v ! j = (\<Sum>i<length jac. dy ! i * jac ! i ! j))"
proof -
  let ?v = "vecMatrixProd vjp dy (concat jac) (length jac) c"
  have hd: "length (hd jac) = c" using assms(1,4) by (cases jac) simp_all
  have run: "computeVJP vjp jac dy = Returns ?v"
    using assms(1-3) hd getRowMajor_concat [OF assms(1) assms(4)]
    by (simp add: computeVJP_def Let_def)
  have len: "length ?v = c" by (simp add: vecMatrixProd_def)
  have entry: "?v ! j = (\<Sum>i<length jac. dy ! i * jac ! i ! j)" if j: "j < c" for j
  proof -
    have "?v ! j = sum_list (map (\<lambda>i. dy ! i * concat jac ! (i * c + j)) [0..<length jac])"
      using j by (simp add: vecMatrixProd_def)
    also have "\<dots> = (\<Sum>i\<in>set [0..<length jac]. dy ! i * concat jac ! (i * c + j))"
      by (rule interv_sum_list_conv_sum_set_nat)
    also have "\<dots> = (\<Sum>i<length jac. dy ! i * concat jac ! (i * c + j))"
      by (simp add: lessThan_atLeast0)
    also have "\<dots> = (\<Sum>i<length jac. dy ! i * jac ! i ! j)"
      using concat_nth_rect [OF assms(4) _ j] by (intro sum.cong) simp_all
    finally show ?thesis .
  qed
  from run len entry show ?thesis by blast
qed

theorem computeVJP_contraction_witness:
  "\<exists>v. computeVJP [] [[1, 2], [3, 4]] [5, 6 :: real] = Returns v \<and> length v = 2 \<and>
        v ! 0 = 23 \<and> v ! 1 = 34"
proof -
  have h1: "[[1, 2], [3, 4 :: real]] \<noteq> []" and h2: "[5, 6 :: real] \<noteq> []"
    and h3: "length [5, 6 :: real] = length [[1, 2], [3, 4 :: real]]"
    and h4: "\<forall>row \<in> set [[1, 2], [3, 4 :: real]]. length row = 2"
    by simp_all
  from computeVJP_contraction [OF h1 h2 h3 h4, of "[]"] obtain v where
    v: "computeVJP [] [[1, 2], [3, 4]] [5, 6 :: real] = Returns v" "length v = 2"
       "\<forall>j<2. v ! j = (\<Sum>i<length [[1, 2], [3, 4 :: real]]. [5, 6] ! i * [[1, 2], [3, 4]] ! i ! j)"
    by blast
  from v(3) have "v ! 0 = 23" "v ! 1 = 34"
    by (simp_all add: eval_nat_numeral lessThan_Suc)
  with v(1,2) show ?thesis by blast
qed

text \<open>
  Claim C4, as stated, fails: with a Jacobian of one row and the empty \<open>dy\<close> the lengths
  differ, and \<open>computeVJP\<close> reports nothing (it returns the empty vector).
\<close>

theorem computeVJP_empty_dy_counterexample:
  "[[1 :: real]] \<noteq> [] \<and> length ([] :: real list) \<noteq> length [[1 :: real]] \<and>
   \<not> reports (computeVJP [7] [[1 :: real]] []) \<and>
   computeVJP [7] [[1 :: real]] [] = Returns []"
  by (simp add: computeVJP_def)

text \<open>
  Claim C4, amended. For every non-empty Jacobian and every non-empty \<open>dy\<close>,
  \<open>computeVJP\<close> reports an error exactly when the length of \<open>dy\<close> differs from the
  number of rows, and the error is \<open>std::invalid_argument\<close> with the output vector
  untouched; when \<open>dy\<close> is empty it returns the empty vector and reports nothing. The
  same holds for \<open>_computeVJP\<close> on a flattened Jacobian with the row count \<open>m\<close>.
\<close>

theorem computeVJP_size_check:
  "jac \<noteq> [] \<Longrightarrow>
     (dy \<noteq> [] \<longrightarrow> (reports (computeVJP vjp jac dy) \<longleftrightarrow> length dy \<noteq> length jac)) \<and>
     (dy \<noteq> [] \<and> length dy \<noteq> length jac \<longrightarrow>
        computeVJP vjp jac dy = Throws InvalidArgument vjp) \<and>
     (dy = [] \<longrightarrow> computeVJP vjp jac dy = Returns []) \<and>
     (flat \<noteq> [] \<and> dy \<noteq> [] \<longrightarrow>
        (reports (computeVJP_flat vjp flat dy m n) \<longleftrightarrow> length dy \<noteq> m)) \<and>
     (flat \<noteq> [] \<and> dy \<noteq> [] \<and> length dy \<noteq> m \<longrightarrow>
        computeVJP_flat vjp flat dy m n = Throws InvalidArgument vjp) \<and>
     (dy = [] \<longrightarrow> computeVJP_flat vjp flat dy m n = Returns [])"
  using getRowMajor_not_reports
    [of "replicate (length jac * length (hd jac)) 0" jac "length jac * length (hd jac)"]
  by (cases "getRowMajor (replicate (length jac * length (hd jac)) 0) jac
               (length jac * length (hd jac))")
     (auto simp: computeVJP_def computeVJP_flat_def Let_def)

theorem computeVJP_size_check_witness:
  "computeVJP [7] [[1, 2], [3, 4 :: real]] [5] = Throws InvalidArgument [7] \<and>
   \<not> reports (computeVJP [7] [[1, 2], [3, 4 :: real]] [5, 6]) \<and>
   computeVJP [7] [[1, 2], [3, 4 :: real]] [] = Returns [] \<and>
   reports (computeVJP_flat [7] [1, 2, 3, 4 :: real] [5] 2 2)"
  using computeVJP_size_check [of "[[1, 2], [3, 4 :: real]]" "[5]" "[7]" "[1, 2, 3, 4]" 2 2]
        computeVJP_size_check [of "[[1, 2], [3, 4 :: real]]" "[5, 6]" "[7]" "[1, 2, 3, 4]" 2 2]
        computeVJP_size_check [of "[[1, 2], [3, 4 :: real]]" "[]" "[7]" "[1, 2, 3, 4]" 2 2]
  by simp

text \<open>
  The shortcut of \<open>vectorJacobianProduct\<close> for an upstream gradient that is entirely
  zero: the outcome does not depend on \<open>adjointJacobianTape\<close>, which is not called, and
  the output vector is the old one resized.
\<close>

lemma vectorJacobianProduct_allzero:
  "trainableParams tape \<noteq> [] \<Longrightarrow> dy \<noteq> [] \<Longrightarrow> list_all (\<lambda>e. e = 0) dy \<Longrightarrow>
   vectorJacobianProduct adjointJacobianTape vjp jac dy tape apply_operations =
     Returns (resize (length (trainableParams tape)) vjp, jac)"
  by (simp add: vectorJacobianProduct_def)

lemma resize_shorter_is_zero_padded:
  "length v \<le> n \<Longrightarrow> resize n v = v @ replicate (n - length v) 0"
  by (simp add: resize_def)

text \<open>
  Claim C1 at a failing input. With two trainable parameters, the output vector
  preallocated as \<open>[1, 2]\<close> and \<open>dy = [0, 0]\<close>, \<open>vectorJacobianProduct\<close> returns with the
  output vector still \<open>[1, 2]\<close>: \<open>resize\<close> to the length the vector already has changes
  nothing. The claim asks for \<open>[0, 0]\<close>.
\<close>

theorem vectorJacobianProduct_allzero_keeps_old_entries:
  "vectorJacobianProduct adjointJacobianTape [1, 2 :: real] jac [0, 0]
     \<lparr>trainableParams = [0, 1], observables = obs\<rparr> apply_operations = Returns ([1, 2], jac)"
  by (simp add: vectorJacobianProduct_def resize_def)

section \<open>Properties of the batch and matrix dispatch\<close>

text \<open>
  What \<open>applyOperations\<close> does check: a list of wires or of parameters whose length is
  not the number of operations makes it throw before any gate is applied.
\<close>

lemma applyOperations_checked_lengths:
  "length ops \<noteq> length wires \<or> length ops \<noteq> length params \<Longrightarrow>
   applyOperations apply1 dat nq ops wires inv_flag params = Throws InvalidArgument dat"
  by auto

lemma applyOperations_nonparam_checked_lengths:
  "length ops \<noteq> length wires \<Longrightarrow>
   applyOperations_nonparam apply1 dat nq ops wires inv_flag = Throws InvalidArgument dat"
  by simp

text \<open>
  Claim C5 at a failing input. One gate, one wire list, one parameter list, and two
  inverse flags: the lengths differ, yet both overloads of \<open>applyOperations\<close> return
  normally with the gate applied. With no inverse flag at all the read \<open>inverse[0]\<close> is
  outside the vector and nothing is reported either.
\<close>

theorem applyOperations_ignores_inverse_length:
  "applyOperations (applyOperation_name example_dispatcher PI)
     [1, 0] 1 [''PauliX''] [[0]] [False, True] [[]] = Returns [0, 1] \<and>
   applyOperations_nonparam (applyOperation_name example_dispatcher PI)
     [1, 0] 1 [''PauliX''] [[0]] [False, True] = Returns [0, 1] \<and>
   applyOperations (applyOperation_name example_dispatcher PI)
     [1, 0] 1 [''PauliX''] [[0]] [] [[]] = Undefined"
  by (simp add: applyOperations_loop.simps applyOperation_name_def strToGateOp_def
      example_dispatcher_def registerGateOperation_def getInstance_def
      registerGeneratorOperation_def registerMatrixOperation_def emplace_def
      example_names_def pauliX_1q_def)

text \<open>
  Claim C6, as stated, fails for the raw-array overload: with one wire and an array of
  five entries (not \<open>4^1\<close>) the call returns normally, the kernel having run.
\<close>

theorem applyMatrix_ptr_size_counterexample:
  "length [0, 1, 1, 0, 0 :: complex] \<noteq> 4 ^ length [0 :: nat] \<and>
   applyMatrix_ptr example_dispatcher PI [1, 0] 1 [0, 1, 1, 0, 0] [0] False = Returns [0, 1]"
  by (simp add: applyMatrix_ptr_def example_dispatcher_def registerGateOperation_def
      getInstance_def registerGeneratorOperation_def registerMatrixOperation_def emplace_def
      matrix_1q_def)

text \<open>
  Claim C6, amended. For every call of \<open>applyMatrix\<close> that supplies the matrix as a
  container with known size, and a wire list of \<open>k\<close> wires, the call throws
  \<open>std::invalid_argument\<close> whenever the matrix does not hold exactly \<open>4^k\<close> entries, and
  the state buffer is unmodified then. The overload that takes a raw flattened array
  receives no size and makes no such check: with the qubit count not below the wire
  count and a kernel registered for the matrix class of the wire count, its outcome is
  that kernel's outcome on the array as given.
\<close>

theorem applyMatrix_size_check:
  "(length matrix \<noteq> 4 ^ length wires \<longrightarrow>
      applyMatrix d kern dat nq matrix wires inv_flag = Throws InvalidArgument dat) \<and>
   (length wires \<le> nq \<and>
    matrices d (if length wires = 1 then SingleQubitOp
                else if length wires = 2 then TwoQubitOp else MultiQubitOp, kern) = Some func \<longrightarrow>
      applyMatrix_ptr d kern dat nq matrix wires inv_flag = func dat nq matrix wires inv_flag)"
  by (simp add: applyMatrix_def applyMatrix_ptr_def exp2_def power_mult)

theorem applyMatrix_size_check_witness:
  "length [0, 1, 1, 0, 0 :: complex] \<noteq> 4 ^ length [0 :: nat] \<and>
   applyMatrix example_dispatcher PI [1, 0] 1 [0, 1, 1, 0, 0] [0] False =
     Throws InvalidArgument [1, 0] \<and>
   applyMatrix_ptr example_dispatcher PI [1, 0] 1 [0, 1, 1, 0] [0] False = Returns [0, 1]"
proof -
  have h: "matrices example_dispatcher
             (if length [0 :: nat] = 1 then SingleQubitOp
              else if length [0 :: nat] = 2 then TwoQubitOp else MultiQubitOp, PI) = Some matrix_1q"
    by (simp add: example_dispatcher_def registerGateOperation_def getInstance_def
        registerGeneratorOperation_def registerMatrixOperation_def emplace_def)
  have k: "matrix_1q [1, 0] 1 [0, 1, 1, 0] [0] False = Returns [0, 1]"
    by (simp add: matrix_1q_def)
  show ?thesis
    using h k
      applyMatrix_size_check [of "[0, 1, 1, 0, 0]" "[0]" example_dispatcher PI "[1, 0]" 1 False matrix_1q]
      applyMatrix_size_check [of "[0, 1, 1, 0]" "[0]" example_dispatcher PI "[1, 0]" 1 False matrix_1q]
    by simp
qed

end
